theory Spec2Isabelle
  imports Complex_Main "HOL-Library.AList" "HOL-Library.Char_ord" "HOL-Library.List_Lexorder"
    "HOL-Library.Sublist" "HOL-Library.Word"
begin

chapter \<open>GH200 support utilities: embedding and properties\<close>

text \<open>
  The development embeds three Python modules: \<^verbatim>\<open>simpletuner/gh200/uvm.py\<close> (placement hints),
  \<^verbatim>\<open>gh200_diagnostic.py\<close> (the function \<^verbatim>\<open>check_uvm_env\<close>) and
  \<^verbatim>\<open>simpletuner/gh200/in_memory_backend.py\<close> (the staging cache). Part I holds the definitions,
  Part II the properties.
\<close>

section \<open>Part I: Python values and string methods\<close>

text \<open>
  A string is a list of 8-bit characters, each the code point of a character below U+0100
  (the Latin-1 range); text with other characters is not modelled. On that range
  \<^verbatim>\<open>str.strip\<close> and \<^verbatim>\<open>str.lower\<close> are as Python has them: the white space characters are
  9-13, 28-32, U+0085 and U+00A0, and the capitals are A-Z and U+00C0-U+00DE without
  U+00D7. \<^verbatim>\<open>str.upper\<close> leaves the range (the micro sign becomes U+039C, y with diaeresis
  U+0178, sharp s the two letters SS), so its result is a list of code points.
  Byte strings are lists of 8-bit words.
\<close>

type_synonym bytes = "8 word list"

type_synonym code_points = "nat list"

datatype py_exn =
    KeyError | TypeError | ValueError | RuntimeError | FileNotFoundError | MemoryError
  | NotImplementedError | OSError | AttributeError | CodecError | ImageError | UnpicklingError
  | CudaError

definition py_isspace :: "char \<Rightarrow> bool" where
  "py_isspace c =
     (let n = (of_char c :: nat)
      in (9 \<le> n \<and> n \<le> 13) \<or> (28 \<le> n \<and> n \<le> 32) \<or> n = 133 \<or> n = 160)"

definition py_lower_char :: "char \<Rightarrow> char" where
  "py_lower_char c =
     (let n = (of_char c :: nat)
      in if (65 \<le> n \<and> n \<le> 90) \<or> (192 \<le> n \<and> n \<le> 222 \<and> n \<noteq> 215)
         then char_of (n + 32) else c)"

definition py_upper_char :: "char \<Rightarrow> code_points" where
  "py_upper_char c =
     (let n = (of_char c :: nat)
      in if (97 \<le> n \<and> n \<le> 122) \<or> (224 \<le> n \<and> n \<le> 254 \<and> n \<noteq> 247) then [n - 32]
         else if n = 181 then [924]
         else if n = 223 then [83, 83]
         else if n = 255 then [376]
         else [n])"

definition py_lower :: "string \<Rightarrow> string" where
  "py_lower s = map py_lower_char s"

definition py_upper :: "string \<Rightarrow> code_points" where
  "py_upper s = concat (map py_upper_char s)"

text \<open>The code points of a string.\<close>

definition code_points_of :: "string \<Rightarrow> code_points" where
  "code_points_of s = map of_char s"

definition py_strip :: "string \<Rightarrow> string" where
  "py_strip s = rev (dropWhile py_isspace (rev (dropWhile py_isspace s)))"

text \<open>\<^verbatim>\<open>s.lstrip(".")\<close>: the leading dots go.\<close>

definition lstrip_dots :: "string \<Rightarrow> string" where
  "lstrip_dots s = dropWhile (\<lambda>c. c = CHR ''.'') s"

text \<open>\<^verbatim>\<open>sub in s\<close> on strings: a search for the first position where \<open>sub\<close> starts.\<close>

fun py_in :: "string \<Rightarrow> string \<Rightarrow> bool" where
  "py_in sub [] = (sub = [])"
| "py_in sub (c # cs) = (prefix sub (c # cs) \<or> py_in sub cs)"

text \<open>\<^verbatim>\<open>s.split(sep)\<close> for a one-character separator: never an empty list.\<close>

fun py_split :: "char \<Rightarrow> string \<Rightarrow> string list" where
  "py_split sep [] = [[]]"
| "py_split sep (c # cs) =
     (if c = sep then [] # py_split sep cs
      else (case py_split sep cs of [] \<Rightarrow> [[c]] | w # ws \<Rightarrow> (c # w) # ws))"

text \<open>\<^verbatim>\<open>sep.join(parts)\<close> for a one-character separator.\<close>

fun py_join :: "char \<Rightarrow> string list \<Rightarrow> string" where
  "py_join sep [] = []"
| "py_join sep [w] = w"
| "py_join sep (w # v # ws) = w @ sep # py_join sep (v # ws)"

text \<open>\<^verbatim>\<open>os.environ.get(key, default)\<close>.\<close>

definition environ_get :: "(string \<rightharpoonup> string) \<Rightarrow> string \<Rightarrow> string \<Rightarrow> string" where
  "environ_get env key dflt = (case env key of None \<Rightarrow> dflt | Some v \<Rightarrow> v)"

section \<open>Part I: the module uvm.py\<close>

subsection \<open>The opt-in flag\<close>

text \<open>
  The module's state is the global \<^verbatim>\<open>_UVM_HINT_OVERRIDE\<close>; the process environment is read
  by \<^verbatim>\<open>gh200_uvm_enabled\<close> and is part of the state the function sees.
\<close>

record uvm_state =
  UVM_HINT_OVERRIDE :: "bool option"
  environ :: "string \<rightharpoonup> string"

definition gh200_uvm_enabled :: "uvm_state \<Rightarrow> bool" where
  "gh200_uvm_enabled st =
     (case UVM_HINT_OVERRIDE st of
        Some v \<Rightarrow> v
      | None \<Rightarrow>
          (let flag = environ_get (environ st) ''SIMPLETUNER_GH200_ENABLE_UVM_HINTS'' ''''
           in py_lower (py_strip flag) \<in> set [''1'', ''true'', ''yes'', ''on'']))"

definition set_uvm_hint_override :: "bool option \<Rightarrow> uvm_state \<Rightarrow> uvm_state" where
  "set_uvm_hint_override v st = st\<lparr>UVM_HINT_OVERRIDE := v\<rparr>"

subsection \<open>Tensors, the CUDA runtime and the log of calls\<close>

text \<open>
  A tensor is what the module reads of it. A method that may raise holds its outcome:
  \<open>Inl\<close> the exception, \<open>Inr\<close> the value.
\<close>

record tensor =
  is_cuda :: bool
  untyped_storage_nbytes :: "py_exn + int"
  element_size :: "py_exn + int"
  numel :: "py_exn + int"
  data_ptr :: "py_exn + int"
  storage_data_ptr :: "py_exn + int"

text \<open>The \<^verbatim>\<open>device\<close> argument of \<^verbatim>\<open>torch.cuda.memory_advise\<close>: \<^verbatim>\<open>"cpu"\<close> or a device index.\<close>

datatype location = Cpu | Device int

text \<open>
  Every call that leaves the module is logged with its arguments: the queries of
  \<^verbatim>\<open>torch.cuda\<close>, the reads of a tensor, and the three hint calls.
\<close>

datatype cuda_call =
    Call_is_available
  | Call_current_device
  | Call_cudart
  | Tensor_read tensor string
  | Call_memory_advise tensor string location
  | Call_cudaMemAdvise int int int int
  | Call_cudaMemPrefetchAsync int int int

text \<open>A log entry: the call, and whether it raised.\<close>

type_synonym cuda_event = "cuda_call \<times> bool"

text \<open>
  The object \<^verbatim>\<open>torch.cuda.cudart()\<close>; an attribute that the build does not have is \<open>None\<close>
  (reading it raises \<^verbatim>\<open>AttributeError\<close>).
\<close>

record cudart_module =
  cudaMemAdvise :: "(int \<Rightarrow> int \<Rightarrow> int \<Rightarrow> int \<Rightarrow> py_exn + unit) option"
  cudaMemAdviseSetPreferredLocation :: "int option"
  cudaMemAdviseSetAccessedBy :: "int option"
  cudaCpuDeviceId :: "int option"
  cudaMemPrefetchAsync :: "(int \<Rightarrow> int \<Rightarrow> int \<Rightarrow> py_exn + unit) option"

text \<open>The part of \<^verbatim>\<open>torch.cuda\<close> the module uses, with the outcome of each call.\<close>

record torch_cuda =
  cuda_is_available :: bool
  cuda_has_memory_advise :: bool
  cuda_memory_advise :: "tensor \<Rightarrow> string \<Rightarrow> location \<Rightarrow> py_exn + unit"
  cuda_has_cudart :: bool
  cuda_cudart :: "py_exn + cudart_module"
  cuda_current_device :: "py_exn + int"

subsection \<open>Computations that may raise and that log their calls\<close>

type_synonym 'a io = "(py_exn + 'a) \<times> cuda_event list"

definition ret :: "'a \<Rightarrow> 'a io" where
  "ret x = (Inr x, [])"

text \<open>Sequencing: an exception of the first part skips the second.\<close>

definition bind :: "'a io \<Rightarrow> ('a \<Rightarrow> 'b io) \<Rightarrow> 'b io" where
  "bind m f =
     (case m of
        (Inl e, tr) \<Rightarrow> (Inl e, tr)
      | (Inr x, tr) \<Rightarrow> (case f x of (r, tr') \<Rightarrow> (r, tr @ tr')))"

text \<open>\<^verbatim>\<open>try: m except Exception as exc: h exc\<close>.\<close>

definition try_except :: "'a io \<Rightarrow> (py_exn \<Rightarrow> 'a io) \<Rightarrow> 'a io" where
  "try_except m h =
     (case m of
        (Inl e, tr) \<Rightarrow> (case h e of (r, tr') \<Rightarrow> (r, tr @ tr'))
      | (Inr x, tr) \<Rightarrow> (Inr x, tr))"

text \<open>An outside call with its outcome.\<close>

definition call :: "cuda_call \<Rightarrow> py_exn + 'a \<Rightarrow> 'a io" where
  "call c outcome = (outcome, [(c, isl outcome)])"

text \<open>Reading an attribute that may be missing.\<close>

definition attr :: "'a option \<Rightarrow> 'a io" where
  "attr a = (case a of None \<Rightarrow> (Inl AttributeError, []) | Some v \<Rightarrow> ret v)"

fun for_each :: "'a list \<Rightarrow> ('a \<Rightarrow> 'b io) \<Rightarrow> unit io" where
  "for_each [] body = ret ()"
| "for_each (x # xs) body = bind (body x) (\<lambda>_. for_each xs body)"

subsection \<open>The helpers of uvm.py\<close>

definition element_span_bytes :: "tensor \<Rightarrow> int io" where
  "element_span_bytes t =
     bind
       (try_except
          (bind (call (Tensor_read t ''untyped_storage().nbytes()'') (untyped_storage_nbytes t))
             (\<lambda>nbytes. ret (if nbytes \<noteq> 0 then Some nbytes else None)))
          (\<lambda>_. ret None))
       (\<lambda>first.
          case first of
            Some nbytes \<Rightarrow> ret nbytes
          | None \<Rightarrow>
              try_except
                (bind (call (Tensor_read t ''element_size()'') (element_size t)) (\<lambda>es.
                 bind (call (Tensor_read t ''numel()'') (numel t)) (\<lambda>n.
                 ret (es * n))))
                (\<lambda>_. ret 0))"

definition cudart :: "torch_cuda \<Rightarrow> cudart_module option io" where
  "cudart tc =
     (if \<not> cuda_has_cudart tc then ret None
      else try_except
             (bind (call Call_cudart (cuda_cudart tc)) (\<lambda>m. ret (Some m)))
             (\<lambda>_. ret None))"

definition current_cuda_device :: "torch_cuda \<Rightarrow> int io" where
  "current_cuda_device tc =
     try_except (call Call_current_device (cuda_current_device tc)) (\<lambda>_. ret 0)"

text \<open>
  \<^verbatim>\<open>ptr = tensor.data_ptr()\<close>, on an exception \<^verbatim>\<open>tensor.storage().data_ptr()\<close>, on a second
  exception the caller returns \<^verbatim>\<open>False\<close> (here: \<open>None\<close>).
\<close>

definition tensor_pointer :: "tensor \<Rightarrow> int option io" where
  "tensor_pointer t =
     try_except
       (bind (call (Tensor_read t ''data_ptr()'') (data_ptr t)) (\<lambda>p. ret (Some p)))
       (\<lambda>_. try_except
               (bind (call (Tensor_read t ''storage().data_ptr()'') (storage_data_ptr t))
                  (\<lambda>p. ret (Some p)))
               (\<lambda>_. ret None))"

definition apply_preferred_location :: "uvm_state \<Rightarrow> torch_cuda \<Rightarrow> tensor \<Rightarrow> bool \<Rightarrow> bool io" where
  "apply_preferred_location st tc t prefer_cpu =
     (if \<not> gh200_uvm_enabled st then ret False
      else
        bind (call Call_is_available (Inr (cuda_is_available tc))) (\<lambda>available.
        if \<not> available then ret False
        else
          bind (call (Tensor_read t ''is_cuda'') (Inr (is_cuda t))) (\<lambda>on_cuda.
          if \<not> on_cuda then ret False
          else
            bind
              (try_except
                 (if cuda_has_memory_advise tc then
                    bind (if prefer_cpu then ret Cpu
                          else bind (current_cuda_device tc) (\<lambda>d. ret (Device d))) (\<lambda>location.
                    bind (call (Call_memory_advise t ''set_preferred_location'' location)
                            (cuda_memory_advise tc t ''set_preferred_location'' location)) (\<lambda>_.
                    bind (current_cuda_device tc) (\<lambda>dev.
                    bind (call (Call_memory_advise t ''set_accessed_by'' (Device dev))
                            (cuda_memory_advise tc t ''set_accessed_by'' (Device dev))) (\<lambda>_.
                    ret (Some True)))))
                  else ret None)
                 (\<lambda>exc. ret None))
              (\<lambda>advised.
                 case advised of
                   Some b \<Rightarrow> ret b
                 | None \<Rightarrow>
                     bind (cudart tc) (\<lambda>crt.
                     case crt of
                       None \<Rightarrow> ret False
                     | Some m \<Rightarrow>
                         bind (element_span_bytes t) (\<lambda>size.
                         if size \<le> 0 then ret False
                         else
                           bind (tensor_pointer t) (\<lambda>ptr.
                           case ptr of
                             None \<Rightarrow> ret False
                           | Some p \<Rightarrow>
                               try_except
                                 (bind (attr (cudaMemAdvise m)) (\<lambda>advise.
                                  bind (attr (cudaMemAdviseSetPreferredLocation m)) (\<lambda>preferred_location.
                                  bind (attr (cudaMemAdviseSetAccessedBy m)) (\<lambda>accessed_by.
                                  bind (ret (case cudaCpuDeviceId m of Some v \<Rightarrow> v | None \<Rightarrow> - 1)) (\<lambda>cpu_id.
                                  bind (if prefer_cpu then ret cpu_id
                                        else current_cuda_device tc) (\<lambda>target.
                                  bind (call (Call_cudaMemAdvise p size preferred_location target)
                                          (advise p size preferred_location target)) (\<lambda>_.
                                  bind (current_cuda_device tc) (\<lambda>dev.
                                  bind (call (Call_cudaMemAdvise p size accessed_by dev)
                                          (advise p size accessed_by dev)) (\<lambda>_.
                                  ret True)))))))))
                                 (\<lambda>exc. ret False))))))))"

definition prefer_cpu_residency :: "uvm_state \<Rightarrow> torch_cuda \<Rightarrow> tensor \<Rightarrow> bool io" where
  "prefer_cpu_residency st tc t = apply_preferred_location st tc t True"

definition prefer_gpu_residency :: "uvm_state \<Rightarrow> torch_cuda \<Rightarrow> tensor \<Rightarrow> bool io" where
  "prefer_gpu_residency st tc t = apply_preferred_location st tc t False"

definition prefetch_to_device :: "uvm_state \<Rightarrow> torch_cuda \<Rightarrow> tensor \<Rightarrow> int option \<Rightarrow> bool io" where
  "prefetch_to_device st tc t device =
     (if \<not> gh200_uvm_enabled st then ret False
      else
        bind (call Call_is_available (Inr (cuda_is_available tc))) (\<lambda>available.
        if \<not> available then ret False
        else
          bind (call (Tensor_read t ''is_cuda'') (Inr (is_cuda t))) (\<lambda>on_cuda.
          if \<not> on_cuda then ret False
          else
            bind (case device of None \<Rightarrow> current_cuda_device tc | Some d \<Rightarrow> ret d) (\<lambda>dev.
            bind (cudart tc) (\<lambda>crt.
            case crt of
              None \<Rightarrow> ret False
            | Some m \<Rightarrow>
                bind (element_span_bytes t) (\<lambda>size.
                if size \<le> 0 then ret False
                else
                  bind (tensor_pointer t) (\<lambda>ptr.
                  case ptr of
                    None \<Rightarrow> ret False
                  | Some p \<Rightarrow>
                      try_except
                        (bind (attr (cudaMemPrefetchAsync m)) (\<lambda>prefetch.
                         bind (call (Call_cudaMemPrefetchAsync p size dev) (prefetch p size dev)) (\<lambda>_.
                         ret True)))
                        (\<lambda>exc. ret False))))))))"

subsection \<open>Batches\<close>

text \<open>
  The objects \<^verbatim>\<open>_iter_tensors\<close> tells apart: a tensor, a mapping, a list or tuple, anything
  else (\<^verbatim>\<open>None\<close> among them).
\<close>

datatype batch_obj =
    Tensor tensor
  | Mapping "(string \<times> batch_obj) list"
  | Sequence "batch_obj list"
  | Other

fun iter_tensors :: "batch_obj \<Rightarrow> tensor list" where
  "iter_tensors (Tensor t) = [t]"
| "iter_tensors (Mapping kvs) = concat (map (\<lambda>kv. iter_tensors (snd kv)) kvs)"
| "iter_tensors (Sequence xs) = concat (map iter_tensors xs)"
| "iter_tensors Other = []"

text \<open>\<^verbatim>\<open>batch.get(key)\<close>: \<^verbatim>\<open>None\<close> for a missing key.\<close>

definition batch_get :: "(string \<times> batch_obj) list \<Rightarrow> string \<Rightarrow> batch_obj" where
  "batch_get batch key = (case map_of batch key of None \<Rightarrow> Other | Some v \<Rightarrow> v)"

definition optimize_batch_for_gh200 ::
    "uvm_state \<Rightarrow> torch_cuda \<Rightarrow> (string \<times> batch_obj) list \<Rightarrow> unit io" where
  "optimize_batch_for_gh200 st tc batch =
     (if \<not> gh200_uvm_enabled st then ret ()
      else
        bind (for_each (iter_tensors (batch_get batch ''latents''))
                (\<lambda>t. prefer_cpu_residency st tc t)) (\<lambda>_.
        for_each [''encoder_hidden_states'', ''text_embeddings'', ''pooled_prompt_embeds'']
          (\<lambda>key. for_each (iter_tensors (batch_get batch key))
             (\<lambda>t. bind (prefer_gpu_residency st tc t) (\<lambda>_. prefetch_to_device st tc t None)))))"

subsection \<open>Reading the log\<close>

fun is_memory_advise :: "cuda_call \<Rightarrow> bool" where
  "is_memory_advise (Call_memory_advise _ _ _) = True"
| "is_memory_advise _ = False"

fun is_cudaMemAdvise :: "cuda_call \<Rightarrow> bool" where
  "is_cudaMemAdvise (Call_cudaMemAdvise _ _ _ _) = True"
| "is_cudaMemAdvise _ = False"

fun is_cudaMemPrefetchAsync :: "cuda_call \<Rightarrow> bool" where
  "is_cudaMemPrefetchAsync (Call_cudaMemPrefetchAsync _ _ _) = True"
| "is_cudaMemPrefetchAsync _ = False"

text \<open>Some call of the kind raised; the number of calls of the kind that returned.\<close>

definition raised :: "(cuda_call \<Rightarrow> bool) \<Rightarrow> cuda_event list \<Rightarrow> bool" where
  "raised kind tr = list_ex (\<lambda>e. kind (fst e) \<and> snd e) tr"

definition completed :: "(cuda_call \<Rightarrow> bool) \<Rightarrow> cuda_event list \<Rightarrow> nat" where
  "completed kind tr = length (filter (\<lambda>e. kind (fst e) \<and> \<not> snd e) tr)"

definition hint_call :: "cuda_call \<Rightarrow> bool" where
  "hint_call c = (is_memory_advise c \<or> is_cudaMemAdvise c \<or> is_cudaMemPrefetchAsync c)"

definition quiet :: "cuda_event list \<Rightarrow> bool" where
  "quiet tr = list_all (\<lambda>e. \<not> hint_call (fst e)) tr"

subsection \<open>Example values\<close>

definition demo_tensor :: tensor where
  "demo_tensor = \<lparr>is_cuda = True, untyped_storage_nbytes = Inr 64, element_size = Inr 4,
     numel = Inr 16, data_ptr = Inr 4096, storage_data_ptr = Inr 4096\<rparr>"

text \<open>A runtime whose \<^verbatim>\<open>cudaMemAdvise\<close> and \<^verbatim>\<open>cudaMemPrefetchAsync\<close> work or raise.\<close>

definition demo_cudart :: "bool \<Rightarrow> cudart_module" where
  "demo_cudart works =
     \<lparr>cudaMemAdvise = Some (\<lambda>p n advice target. if works then Inr () else Inl CudaError),
      cudaMemAdviseSetPreferredLocation = Some 3,
      cudaMemAdviseSetAccessedBy = Some 5,
      cudaCpuDeviceId = Some (- 1),
      cudaMemPrefetchAsync = Some (\<lambda>p n dev. if works then Inr () else Inl CudaError)\<rparr>"

text \<open>A build with \<^verbatim>\<open>torch.cuda.memory_advise\<close>, which raises on every call.\<close>

definition demo_cuda :: "bool \<Rightarrow> torch_cuda" where
  "demo_cuda works =
     \<lparr>cuda_is_available = True, cuda_has_memory_advise = True,
      cuda_memory_advise = (\<lambda>t advice loc. Inl RuntimeError),
      cuda_has_cudart = True, cuda_cudart = Inr (demo_cudart works),
      cuda_current_device = Inr 0\<rparr>"

definition demo_state :: "bool option \<Rightarrow> uvm_state" where
  "demo_state override = \<lparr>UVM_HINT_OVERRIDE = override, environ = Map.empty\<rparr>"

definition demo_batch :: "(string \<times> batch_obj) list" where
  "demo_batch =
     [(''latents'', Tensor demo_tensor),
      (''text_embeddings'', Sequence [Tensor demo_tensor, Other])]"

section \<open>Part I: the function check_uvm_env of gh200_diagnostic.py\<close>

text \<open>
  The value of \<^verbatim>\<open>oversubscription_ratio\<close>: a float, or the raw string when \<^verbatim>\<open>float\<close> raised
  \<^verbatim>\<open>ValueError\<close>. Floats are not modelled: the type of floats and Python's \<^verbatim>\<open>float(s)\<close> are
  parameters (\<open>None\<close> for a \<^verbatim>\<open>ValueError\<close>).
\<close>

datatype 'f ratio_value = Ratio_float 'f | Ratio_raw string

record 'f uvm_env_report =
  enabled :: bool
  raw :: string
  oversubscription_ratio :: "'f ratio_value option"
  access_pattern :: "string option"

text \<open>\<^verbatim>\<open>key, value = part.split(":", 1)\<close> for a part that holds the separator.\<close>

definition split_once :: "char \<Rightarrow> string \<Rightarrow> string \<times> string" where
  "split_once sep s = (takeWhile (\<lambda>c. c \<noteq> sep) s, drop 1 (dropWhile (\<lambda>c. c \<noteq> sep) s))"

text \<open>The body of the loop over the parts, on the pair \<open>(ratio, access_pattern)\<close>.\<close>

definition check_uvm_env_part ::
    "(string \<Rightarrow> 'f option) \<Rightarrow> 'f ratio_value option \<times> string option \<Rightarrow> string
      \<Rightarrow> 'f ratio_value option \<times> string option" where
  "check_uvm_env_part py_float acc part =
     (if CHR '':'' \<notin> set part then acc
      else
        (case split_once CHR '':'' part of
           (key0, value0) \<Rightarrow>
             (let key = py_lower (py_strip key0); v = py_strip value0
              in if key = ''uvm_oversubscription_ratio'' then
                   (Some (case py_float v of Some f \<Rightarrow> Ratio_float f | None \<Rightarrow> Ratio_raw v),
                    snd acc)
                 else if key = ''uvm_access_pattern'' then (fst acc, Some (py_lower v))
                 else acc)))"

definition check_uvm_env :: "(string \<Rightarrow> 'f option) \<Rightarrow> (string \<rightharpoonup> string) \<Rightarrow> 'f uvm_env_report" where
  "check_uvm_env py_float env =
     (let conf = environ_get env ''PYTORCH_CUDA_ALLOC_CONF'' '''';
          found = (if conf \<noteq> [] then
                     foldl (check_uvm_env_part py_float) (None, None) (py_split CHR '','' conf)
                   else (None, None))
      in \<lparr>enabled = py_in ''use_uvm:True'' conf, raw = conf,
          oversubscription_ratio = fst found, access_pattern = snd found\<rparr>)"

text \<open>
  What the claim speaks of: the \<^verbatim>\<open>key:value\<close> parts of the comma-separated variable, each with
  its key stripped and lowercased and its value stripped, and the value of the last part with
  a given key.
\<close>

definition key_value_parts :: "string \<Rightarrow> (string \<times> string) list" where
  "key_value_parts conf =
     map (\<lambda>part. (py_lower (py_strip (fst (split_once CHR '':'' part))),
                  py_strip (snd (split_once CHR '':'' part))))
       (filter (\<lambda>part. CHR '':'' \<in> set part) (py_split CHR '','' conf))"

definition last_value :: "string \<Rightarrow> (string \<times> string) list \<Rightarrow> string option" where
  "last_value key kvs = map_of (rev kvs) key"

text \<open>An example parser of floats: digits, at most one point among them.\<close>

definition demo_float :: "string \<Rightarrow> string option" where
  "demo_float s =
     (if s \<noteq> [] \<and> list_all (\<lambda>c. c \<in> set ''0123456789.'') s
         \<and> length (filter (\<lambda>c. c = CHR ''.'') s) \<le> 1 \<and> s \<noteq> ''.''
      then Some s else None)"

definition demo_environ :: "string \<rightharpoonup> string" where
  "demo_environ =
     [''PYTORCH_CUDA_ALLOC_CONF'' \<mapsto>
        ''use_uvm:True, UVM_Oversubscription_Ratio : 2.5 ,uvm_access_pattern:GPU_First,junk,uvm_oversubscription_ratio:abc'']"

text \<open>A second environment: a ratio that parses, and a capital outside ASCII (U+00C9).\<close>

definition demo_environ_float :: "string \<rightharpoonup> string" where
  "demo_environ_float =
     [''PYTORCH_CUDA_ALLOC_CONF'' \<mapsto>
        ''use_uvm:true,uvm_oversubscription_ratio: 1.5 ,uvm_access_pattern:'' @ [CHR 0xC9, CHR ''T'']]"

section \<open>Part I: the module in_memory_backend.py\<close>

subsection \<open>Paths\<close>

text \<open>
  A \<^verbatim>\<open>pathlib\<close> path on a POSIX system: the root (\<^verbatim>\<open>""\<close>, \<^verbatim>\<open>"/"\<close> or \<^verbatim>\<open>"//"\<close>) and the
  components. \<open>Path\<close> parses a string as \<^verbatim>\<open>pathlib\<close> does: empty components and \<^verbatim>\<open>"."\<close> go.
\<close>

record ppath =
  path_root :: string
  path_parts :: "string list"

definition Path :: "string \<Rightarrow> ppath" where
  "Path s =
     \<lparr>path_root =
        (if take 2 s = ''//'' \<and> take 3 s \<noteq> ''///'' then ''//''
         else if take 1 s = ''/'' then ''/'' else ''''),
      path_parts = filter (\<lambda>c. c \<noteq> '''' \<and> c \<noteq> ''.'') (py_split CHR ''/'' s)\<rparr>"

text \<open>\<^verbatim>\<open>str(path)\<close>.\<close>

definition path_str :: "ppath \<Rightarrow> string" where
  "path_str p =
     (if path_root p = '''' \<and> path_parts p = [] then ''.''
      else path_root p @ py_join CHR ''/'' (path_parts p))"

text \<open>\<^verbatim>\<open>path.relative_to(other)\<close>: \<^verbatim>\<open>ValueError\<close> unless \<open>other\<close> is \<open>path\<close> or above it.\<close>

definition relative_to :: "ppath \<Rightarrow> ppath \<Rightarrow> py_exn + ppath" where
  "relative_to p other =
     (if path_root p = path_root other \<and> prefix (path_parts other) (path_parts p)
      then Inr \<lparr>path_root = '''', path_parts = drop (length (path_parts other)) (path_parts p)\<rparr>
      else Inl ValueError)"

text \<open>\<^verbatim>\<open>p / q\<close>: a rooted \<open>q\<close> replaces \<open>p\<close>.\<close>

definition path_join :: "ppath \<Rightarrow> ppath \<Rightarrow> ppath" where
  "path_join p q =
     (if path_root q \<noteq> '''' then q
      else \<lparr>path_root = path_root p, path_parts = path_parts p @ path_parts q\<rparr>)"

definition path_name :: "ppath \<Rightarrow> string" where
  "path_name p = (if path_parts p = [] then '''' else last (path_parts p))"

text \<open>\<^verbatim>\<open>path.suffix\<close>: from the last dot of the name, unless the dot is first or last there.\<close>

definition path_suffix :: "ppath \<Rightarrow> string" where
  "path_suffix p =
     (let name = path_name p;
          after = rev (takeWhile (\<lambda>c. c \<noteq> CHR ''.'') (rev name))
      in if CHR ''.'' \<in> set name \<and> after \<noteq> [] \<and> length after + 1 < length name
         then CHR ''.'' # after else '''')"

definition path_parent :: "ppath \<Rightarrow> ppath" where
  "path_parent p = (if path_parts p = [] then p else p\<lparr>path_parts := butlast (path_parts p)\<rparr>)"

text \<open>\<^verbatim>\<open>os.path.isabs\<close>.\<close>

definition isabs :: "string \<Rightarrow> bool" where
  "isabs s = (take 1 s = ''/'')"

text \<open>The key Python sorts paths by: the root, then the components.\<close>

definition path_key :: "ppath \<Rightarrow> string list" where
  "path_key p = path_root p # path_parts p"


subsection \<open>What lies outside the module\<close>

text \<open>
  The compression libraries. \<^verbatim>\<open>zlib\<close> is part of Python; \<^verbatim>\<open>lz4.frame\<close> and \<^verbatim>\<open>snappy\<close> are
  \<open>None\<close> when not installed. Decompression may raise.
\<close>

record codecs =
  zlib_compress :: "bytes \<Rightarrow> int \<Rightarrow> bytes"
  zlib_decompress :: "bytes \<Rightarrow> py_exn + bytes"
  lz4_frame :: "((bytes \<Rightarrow> bytes) \<times> (bytes \<Rightarrow> py_exn + bytes)) option"
  snappy :: "((bytes \<Rightarrow> bytes) \<times> (bytes \<Rightarrow> py_exn + bytes)) option"

text \<open>Each installed library gives back what it compressed.\<close>

definition codecs_roundtrip :: "codecs \<Rightarrow> bool" where
  "codecs_roundtrip libs =
     ((\<forall>x level. zlib_decompress libs (zlib_compress libs x level) = Inr x)
      \<and> (case lz4_frame libs of None \<Rightarrow> True | Some (c, d) \<Rightarrow> (\<forall>x. d (c x) = Inr x))
      \<and> (case snappy libs of None \<Rightarrow> True | Some (c, d) \<Rightarrow> (\<forall>x. d (c x) = Inr x)))"

text \<open>
  The file system and the thread pool, as the constructor meets them: \<^verbatim>\<open>Path.exists\<close>,
  \<^verbatim>\<open>Path.rglob\<close>, \<^verbatim>\<open>Path.resolve\<close>, \<^verbatim>\<open>Path.stat().st_size\<close>, reading a file, and the order
  in which \<^verbatim>\<open>as_completed\<close> yields the futures it is given.
\<close>

record system =
  path_exists :: "ppath \<Rightarrow> bool"
  rglob :: "ppath \<Rightarrow> code_points \<Rightarrow> ppath list"
  resolve :: "ppath \<Rightarrow> ppath"
  stat_size :: "ppath \<Rightarrow> py_exn + nat"
  read_bytes :: "ppath \<Rightarrow> py_exn + bytes"
  as_completed :: "(py_exn + string \<times> bytes) list \<Rightarrow> (py_exn + string \<times> bytes) list"

text \<open>The values the method \<^verbatim>\<open>write\<close> may be handed.\<close>

datatype py_data =
    BytesIO bytes
  | Bytes bytes
  | TorchTensor tensor
  | ByteArray bytes
  | Str string
  | Int int
  | NoneValue
  | ListOf "py_data list"

subsection \<open>The backend\<close>

record backend =
  backend_id :: string
  backend_type :: string
  instance_data_dir :: ppath
  file_extensions :: "string list"
  compress_fn :: "(bytes \<Rightarrow> bytes) option"
  decompress_fn :: "(bytes \<Rightarrow> py_exn + bytes) option"
  compression_name :: string
  memory_limit_bytes :: "int option"
  num_workers :: int
  storage :: "(string \<times> bytes) list"

definition resolve_compression ::
    "codecs \<Rightarrow> string option
      \<Rightarrow> py_exn + ((bytes \<Rightarrow> bytes) option \<times> (bytes \<Rightarrow> py_exn + bytes) option \<times> string)" where
  "resolve_compression libs name =
     (case name of
        None \<Rightarrow> Inr (None, None, ''none'')
      | Some n \<Rightarrow>
          if n = [] then Inr (None, None, ''none'')
          else
            (let normalized = py_lower (py_strip n)
             in if normalized = ''zlib'' then
                  Inr (Some (\<lambda>data. zlib_compress libs data 1), Some (zlib_decompress libs), ''zlib'')
                else if normalized = ''lz4'' then
                  (case lz4_frame libs of
                     None \<Rightarrow> Inl RuntimeError
                   | Some (c, d) \<Rightarrow> Inr (Some c, Some d, ''lz4''))
                else if normalized = ''snappy'' then
                  (case snappy libs of
                     None \<Rightarrow> Inl RuntimeError
                   | Some (c, d) \<Rightarrow> Inr (Some c, Some d, ''snappy''))
                else Inl ValueError))"

text \<open>\<^verbatim>\<open>int(x)\<close> on a number: towards zero.\<close>

definition py_int :: "rat \<Rightarrow> int" where
  "py_int q = (if 0 \<le> q then \<lfloor>q\<rfloor> else \<lceil>q\<rceil>)"

text \<open>\<^verbatim>\<open>self._decompress_fn(data) if self._decompress_fn else data\<close>.\<close>

definition decompressed :: "backend \<Rightarrow> bytes \<Rightarrow> py_exn + bytes" where
  "decompressed b data = (case decompress_fn b of Some d \<Rightarrow> d data | None \<Rightarrow> Inr data)"

text \<open>\<^verbatim>\<open>if self._compress_fn: payload = self._compress_fn(payload)\<close>.\<close>

definition compressed :: "backend \<Rightarrow> bytes \<Rightarrow> bytes" where
  "compressed b payload = (case compress_fn b of Some c \<Rightarrow> c payload | None \<Rightarrow> payload)"

text \<open>
  Every method returns its outcome and the backend after the call: \<open>Inl\<close> the exception
  raised, \<open>Inr\<close> the value returned.
\<close>

definition read :: "backend \<Rightarrow> string \<Rightarrow> bool \<Rightarrow> (py_exn + py_data) \<times> backend" where
  "read b identifier as_byte_io =
     (case map_of (storage b) identifier of
        None \<Rightarrow> (Inl KeyError, b)
      | Some data \<Rightarrow>
          (case decompressed b data of
             Inl e \<Rightarrow> (Inl e, b)
           | Inr payload \<Rightarrow> (Inr (if as_byte_io then BytesIO payload else Bytes payload), b)))"

text \<open>
  The method \<^verbatim>\<open>write\<close> (the name is taken in Isabelle); \<^verbatim>\<open>torch.save\<close> is a parameter.
\<close>

definition backend_write ::
    "(tensor \<Rightarrow> bytes) \<Rightarrow> backend \<Rightarrow> string \<Rightarrow> py_data \<Rightarrow> (py_exn + unit) \<times> backend" where
  "backend_write torch_save b identifier data =
     (case (case data of
              BytesIO v \<Rightarrow> Inr v
            | Bytes v \<Rightarrow> Inr v
            | TorchTensor t \<Rightarrow> Inr (torch_save t)
            | _ \<Rightarrow> Inl TypeError) of
        Inl e \<Rightarrow> (Inl e, b)
      | Inr payload \<Rightarrow>
          (Inr (), b\<lparr>storage := AList.update identifier (compressed b payload) (storage b)\<rparr>))"

definition delete :: "backend \<Rightarrow> string \<Rightarrow> (py_exn + unit) \<times> backend" where
  "delete b identifier = (Inr (), b\<lparr>storage := AList.delete identifier (storage b)\<rparr>)"

definition exists :: "backend \<Rightarrow> string \<Rightarrow> (py_exn + bool) \<times> backend" where
  "exists b identifier = (Inr (identifier \<in> set (map fst (storage b))), b)"

definition open_file :: "backend \<Rightarrow> string \<Rightarrow> string \<Rightarrow> (py_exn + py_data) \<times> backend" where
  "open_file b identifier mode =
     (if CHR ''r'' \<in> set mode \<and> identifier \<in> set (map fst (storage b)) then
        (case map_of (storage b) identifier of
           None \<Rightarrow> (Inl KeyError, b)
         | Some payload \<Rightarrow>
             (case decompressed b payload of
                Inl e \<Rightarrow> (Inl e, b)
              | Inr data \<Rightarrow> (Inr (BytesIO data), b)))
      else (Inl NotImplementedError, b))"

text \<open>\<^verbatim>\<open>results.setdefault(parent, []).append(file)\<close> on a dictionary kept in insertion order.\<close>

definition setdefault_append ::
    "string \<Rightarrow> string \<Rightarrow> (string \<times> string list) list \<Rightarrow> (string \<times> string list) list" where
  "setdefault_append k v results =
     (case map_of results k of
        None \<Rightarrow> results @ [(k, [v])]
      | Some vs \<Rightarrow> AList.update k (vs @ [v]) results)"

text \<open>The argument \<^verbatim>\<open>file_extensions\<close>: an empty list stands for \<^verbatim>\<open>None\<close> too.\<close>

definition list_files ::
    "backend \<Rightarrow> string list \<Rightarrow> (py_exn + (string \<times> string list \<times> string list) list) \<times> backend" where
  "list_files b exts =
     (let extensions =
            remdups (map (\<lambda>ext. lstrip_dots (py_lower ext))
                       (if exts = [] then file_extensions b else exts));
          kept = filter (\<lambda>rel_path.
                   \<not> (extensions \<noteq> []
                      \<and> lstrip_dots (py_lower (path_suffix (Path rel_path))) \<notin> set extensions))
                   (map fst (storage b));
          results = foldl (\<lambda>acc rel_path.
                       setdefault_append (path_str (path_parent (Path rel_path)))
                         (path_str (path_join (instance_data_dir b) (Path rel_path))) acc)
                     [] kept
      in (Inr (map (\<lambda>(folder, files). (folder, [], files)) results), b))"

definition get_abs_path :: "backend \<Rightarrow> string option \<Rightarrow> (py_exn + string) \<times> backend" where
  "get_abs_path b sample_path =
     (case sample_path of
        None \<Rightarrow> (Inr (path_str (instance_data_dir b)), b)
      | Some s \<Rightarrow>
          if isabs s then (Inr s, b)
          else (Inr (path_str (path_join (instance_data_dir b) (Path s))), b))"

definition relative_key :: "backend \<Rightarrow> string \<Rightarrow> string" where
  "relative_key b path =
     (case relative_to (Path path) (instance_data_dir b) of
        Inr rel \<Rightarrow> path_str rel
      | Inl _ \<Rightarrow> path_str (Path path))"

text \<open>
  \<^verbatim>\<open>Image.open\<close> with \<^verbatim>\<open>image.load\<close>, and \<^verbatim>\<open>torch.load\<close>, are parameters. Both methods
  call \<^verbatim>\<open>read\<close> without \<^verbatim>\<open>as_byte_io\<close>, which returns bytes: the last case of each
  definition never arises.
\<close>

definition read_image ::
    "(bytes \<Rightarrow> py_exn + 'img) \<Rightarrow> backend \<Rightarrow> string \<Rightarrow> (py_exn + 'img) \<times> backend" where
  "read_image image_open b filepath =
     (case read b (relative_key b filepath) False of
        (Inl e, b') \<Rightarrow> (if e = KeyError then (Inl FileNotFoundError, b') else (Inl e, b'))
      | (Inr (Bytes payload), b') \<Rightarrow> (image_open payload, b')
      | (Inr _, b') \<Rightarrow> (Inl TypeError, b'))"

definition torch_load ::
    "(bytes \<Rightarrow> py_exn + 'obj) \<Rightarrow> backend \<Rightarrow> string \<Rightarrow> (py_exn + 'obj) \<times> backend" where
  "torch_load torch_load_bytes b filename =
     (case read b (relative_key b filename) False of
        (Inl e, b') \<Rightarrow> (Inl e, b')
      | (Inr (Bytes payload), b') \<Rightarrow> (torch_load_bytes payload, b')
      | (Inr _, b') \<Rightarrow> (Inl TypeError, b'))"

subsection \<open>Staging the directory\<close>

definition gather_files :: "system \<Rightarrow> backend \<Rightarrow> ppath list" where
  "gather_files sys b =
     (let extensions = remdups (map (\<lambda>ext. CHR ''.'' # ext) (file_extensions b));
          files = concat (map (\<lambda>extension.
                    rglob sys (instance_data_dir b) (code_points_of (CHR ''*'' # extension))
                    @ rglob sys (instance_data_dir b) (code_points_of ''*'' @ py_upper extension))
                    extensions)
      in sort_key path_key (remdups (map (resolve sys) files)))"

definition load_single_file :: "system \<Rightarrow> backend \<Rightarrow> ppath \<Rightarrow> py_exn + string \<times> bytes" where
  "load_single_file sys b path =
     (case read_bytes sys path of
        Inl e \<Rightarrow> Inl e
      | Inr payload \<Rightarrow>
          (case relative_to path (instance_data_dir b) of
             Inl e \<Rightarrow> Inl e
           | Inr rel \<Rightarrow> Inr (path_str rel, compressed b payload)))"

text \<open>\<^verbatim>\<open>sum(path.stat().st_size for path in files)\<close>.\<close>

fun total_size :: "system \<Rightarrow> ppath list \<Rightarrow> py_exn + nat" where
  "total_size sys [] = Inr 0"
| "total_size sys (p # ps) =
     (case stat_size sys p of
        Inl e \<Rightarrow> Inl e
      | Inr n \<Rightarrow> (case total_size sys ps of Inl e \<Rightarrow> Inl e | Inr m \<Rightarrow> Inr (n + m)))"

text \<open>
  The loop over the completed futures: \<^verbatim>\<open>future.result()\<close> raises what the worker raised,
  otherwise the entry is stored.
\<close>

fun stage :: "(py_exn + string \<times> bytes) list \<Rightarrow> backend \<Rightarrow> (py_exn + unit) \<times> backend" where
  "stage [] b = (Inr (), b)"
| "stage (Inl e # futures) b = (Inl e, b)"
| "stage (Inr (rel_path, payload) # futures) b =
     stage futures (b\<lparr>storage := AList.update rel_path payload (storage b)\<rparr>)"

definition load_dataset :: "system \<Rightarrow> backend \<Rightarrow> (py_exn + unit) \<times> backend" where
  "load_dataset sys b =
     (let files = gather_files sys b
      in if files = [] then (Inr (), b)
         else
           (case total_size sys files of
              Inl e \<Rightarrow> (Inl e, b)
            | Inr total_bytes \<Rightarrow>
                if (case memory_limit_bytes b of
                      None \<Rightarrow> False
                    | Some limit \<Rightarrow> limit \<noteq> 0 \<and> limit < int total_bytes)
                then (Inl MemoryError, b)
                else stage (as_completed sys (map (load_single_file sys b) files)) b))"

text \<open>
  The object after the assignments of \<^verbatim>\<open>__init__\<close>, before the directory is looked at.
  \<open>default_extensions\<close> is the module constant \<^verbatim>\<open>_DEFAULT_EXTENSIONS\<close>, built from a list the
  module imports. \<^verbatim>\<open>memory_limit_gb\<close> is a rational number: multiplying a float by
  \<^verbatim>\<open>1024**3\<close> is exact.
\<close>

definition new_backend ::
    "string list \<Rightarrow> string \<Rightarrow> string \<Rightarrow> string list option
      \<Rightarrow> (bytes \<Rightarrow> bytes) option \<times> (bytes \<Rightarrow> py_exn + bytes) option \<times> string
      \<Rightarrow> rat option \<Rightarrow> int \<Rightarrow> backend" where
  "new_backend default_extensions ident dir exts codec memory_limit_gb workers =
     \<lparr>backend_id = ident,
      backend_type = ''in_memory'',
      instance_data_dir = Path dir,
      file_extensions =
        map (\<lambda>ext. lstrip_dots (py_lower ext))
          (case exts of None \<Rightarrow> default_extensions
           | Some es \<Rightarrow> if es = [] then default_extensions else es),
      compress_fn = fst codec,
      decompress_fn = fst (snd codec),
      compression_name = snd (snd codec),
      memory_limit_bytes = map_option (\<lambda>gb. py_int (gb * 1024 ^ 3)) memory_limit_gb,
      num_workers = max 1 workers,
      storage = []\<rparr>"

definition GH200InMemoryBackend ::
    "system \<Rightarrow> codecs \<Rightarrow> string list \<Rightarrow> string \<Rightarrow> string \<Rightarrow> string list option
      \<Rightarrow> string option \<Rightarrow> rat option \<Rightarrow> int \<Rightarrow> py_exn + backend" where
  "GH200InMemoryBackend sys libs default_extensions ident dir exts compression memory_limit_gb workers =
     (case resolve_compression libs compression of
        Inl e \<Rightarrow> Inl e
      | Inr codec \<Rightarrow>
          (let b = new_backend default_extensions ident dir exts codec memory_limit_gb workers
           in if \<not> path_exists sys (instance_data_dir b) then Inl FileNotFoundError
              else (case load_dataset sys b of
                      (Inl e, b') \<Rightarrow> Inl e
                    | (Inr u, b') \<Rightarrow> Inr b')))"

text \<open>The number of bytes the backend holds.\<close>

definition stored_bytes :: "backend \<Rightarrow> nat" where
  "stored_bytes b = sum_list (map (\<lambda>kv. length (snd kv)) (storage b))"

subsection \<open>Example values for the backend\<close>

text \<open>
  Toy libraries: \<^verbatim>\<open>zlib\<close> puts a byte in front, \<^verbatim>\<open>lz4\<close> reverses, \<^verbatim>\<open>snappy\<close> is not
  installed.
\<close>

definition demo_codecs :: codecs where
  "demo_codecs =
     \<lparr>zlib_compress = (\<lambda>data level. 120 # data),
      zlib_decompress = (\<lambda>data. case data of [] \<Rightarrow> Inl CodecError
                           | x # rest \<Rightarrow> if x = 120 then Inr rest else Inl CodecError),
      lz4_frame = Some (rev, \<lambda>data. Inr (rev data)),
      snappy = None\<rparr>"

definition demo_torch_save :: "tensor \<Rightarrow> bytes" where
  "demo_torch_save t = [80, 75]"

text \<open>A backend with the codec of a compression setting and two staged entries.\<close>

definition demo_backend :: "string option \<Rightarrow> backend" where
  "demo_backend compression =
     (new_backend [''png''] ''ds'' ''/data'' None
        (case resolve_compression demo_codecs compression of
           Inr codec \<Rightarrow> codec
         | Inl e \<Rightarrow> (None, None, ''none''))
        None 4)
     \<lparr>storage := [(''a.png'', [1, 2, 3]), (''sub/b.png'', [4])]\<rparr>"

text \<open>
  A directory \<^verbatim>\<open>/data\<close> with three files and a symbolic link \<^verbatim>\<open>link.png\<close> to \<^verbatim>\<open>a.png\<close>, a
  glob that matches a name by its ending, and a pool that completes its futures in reverse
  order.
\<close>

definition demo_files :: "(ppath \<times> bytes) list" where
  "demo_files =
     [(Path ''/data/a.png'', [1, 2, 3]),
      (Path ''/data/link.png'', [1, 2, 3]),
      (Path ''/data/sub/b.PNG'', [4]),
      (Path ''/data/c.Png'', [9, 9])]"

definition demo_glob :: "code_points \<Rightarrow> string \<Rightarrow> bool" where
  "demo_glob pattern name =
     (case pattern of
        [] \<Rightarrow> False
      | c # ending \<Rightarrow> c = of_char CHR ''*'' \<and> suffix ending (code_points_of name))"

definition demo_system :: system where
  "demo_system =
     \<lparr>path_exists = (\<lambda>p. p = Path ''/data''),
      rglob = (\<lambda>d pattern.
        if d = Path ''/data''
        then map fst (filter (\<lambda>entry. demo_glob pattern (path_name (fst entry))) demo_files)
        else []),
      resolve = (\<lambda>p. if p = Path ''/data/link.png'' then Path ''/data/a.png'' else p),
      stat_size = (\<lambda>p. case map_of demo_files p of
                          None \<Rightarrow> Inl FileNotFoundError | Some c \<Rightarrow> Inr (length c)),
      read_bytes = (\<lambda>p. case map_of demo_files p of
                           None \<Rightarrow> Inl FileNotFoundError | Some c \<Rightarrow> Inr c),
      as_completed = rev\<rparr>"

text \<open>The backend that staging \<^verbatim>\<open>/data\<close> without compression gives.\<close>

definition demo_staged :: "rat option \<Rightarrow> backend" where
  "demo_staged memory_limit_gb =
     (new_backend [''png''] ''ds'' ''/data'' None (None, None, ''none'') memory_limit_gb 4)
     \<lparr>storage := [(''sub/b.PNG'', [4]), (''a.png'', [1, 2, 3])]\<rparr>"


text \<open>A stand-in for \<^verbatim>\<open>Image.open\<close> and \<^verbatim>\<open>torch.load\<close>.\<close>

definition demo_decode :: "bytes \<Rightarrow> py_exn + nat" where
  "demo_decode payload = (if payload = [] then Inl ImageError else Inr (length payload))"

section \<open>Part II: properties of uvm.py\<close>

lemmas io_defs = ret_def bind_def try_except_def call_def attr_def



subsection \<open>The opt-in flag\<close>

text \<open>
  C10. \<^verbatim>\<open>gh200_uvm_enabled\<close> returns the override whenever the last call of
  \<^verbatim>\<open>set_uvm_hint_override\<close> passed \<^verbatim>\<open>True\<close> or \<^verbatim>\<open>False\<close>, whatever the environment
  holds and whatever calls came before; when the last call passed \<^verbatim>\<open>None\<close> it returns
  \<^verbatim>\<open>True\<close> exactly when the variable \<^verbatim>\<open>SIMPLETUNER_GH200_ENABLE_UVM_HINTS\<close> (the empty
  string when unset), stripped and lowercased, is one of "1", "true", "yes", "on".
\<close>

theorem C10_override_then_environment:
  "gh200_uvm_enabled
     ((foldl (\<lambda>s v. set_uvm_hint_override v s) st (vs @ [Some b]))\<lparr>environ := env\<rparr>) = b
   \<and> gh200_uvm_enabled
       ((foldl (\<lambda>s v. set_uvm_hint_override v s) st (vs @ [None]))\<lparr>environ := env\<rparr>)
     = (py_lower (py_strip (environ_get env ''SIMPLETUNER_GH200_ENABLE_UVM_HINTS'' ''''))
          \<in> {''1'', ''true'', ''yes'', ''on''})"
  by (simp add: gh200_uvm_enabled_def set_uvm_hint_override_def Let_def)

theorem C10_override_then_environment_witness:
  "gh200_uvm_enabled
     ((foldl (\<lambda>s v. set_uvm_hint_override v s) (demo_state None) ([None] @ [Some True]))
        \<lparr>environ := Map.empty\<rparr>) = True
   \<and> gh200_uvm_enabled
       ((foldl (\<lambda>s v. set_uvm_hint_override v s) (demo_state None) ([Some False] @ [None]))
          \<lparr>environ := [''SIMPLETUNER_GH200_ENABLE_UVM_HINTS'' \<mapsto> '' Yes '']\<rparr>) = True
   \<and> gh200_uvm_enabled
       ((foldl (\<lambda>s v. set_uvm_hint_override v s) (demo_state None) ([Some False] @ [None]))
          \<lparr>environ := [''SIMPLETUNER_GH200_ENABLE_UVM_HINTS'' \<mapsto> ''yes'' @ [CHR 0xA0]]\<rparr>) = True
   \<and> gh200_uvm_enabled
       ((foldl (\<lambda>s v. set_uvm_hint_override v s) (demo_state None) ([Some True] @ [None]))
          \<lparr>environ := [''SIMPLETUNER_GH200_ENABLE_UVM_HINTS'' \<mapsto> ''enabled'']\<rparr>) = False"
proof -
  have low: "py_lower (py_strip '' Yes '') = ''yes''"
    by code_simp
  have nbsp: "py_lower (py_strip [CHR ''y'', CHR ''e'', CHR ''s'', CHR 0xA0]) = ''yes''"
    by code_simp
  have other: "py_lower (py_strip ''enabled'') = ''enabled''"
    by code_simp
  show ?thesis
    using C10_override_then_environment
        [where st = "demo_state None" and vs = "[None]" and b = True and env = Map.empty]
      C10_override_then_environment
        [where st = "demo_state None" and vs = "[Some False]" and b = False
           and env = "[''SIMPLETUNER_GH200_ENABLE_UVM_HINTS'' \<mapsto> '' Yes '']"]
      C10_override_then_environment
        [where st = "demo_state None" and vs = "[Some False]" and b = False
           and env = "[''SIMPLETUNER_GH200_ENABLE_UVM_HINTS'' \<mapsto> ''yes'' @ [CHR 0xA0]]"]
      C10_override_then_environment
        [where st = "demo_state None" and vs = "[Some True]" and b = False
           and env = "[''SIMPLETUNER_GH200_ENABLE_UVM_HINTS'' \<mapsto> ''enabled'']"]
    by (simp add: environ_get_def low nbsp other)
qed

subsection \<open>Nothing happens unless the hints are on and CUDA is there\<close>

lemma apply_preferred_location_off:
  "\<not> gh200_uvm_enabled st \<or> \<not> cuda_is_available tc \<Longrightarrow>
   apply_preferred_location st tc t pc =
     (Inr False, if gh200_uvm_enabled st then [(Call_is_available, False)] else [])"
  by (auto simp: apply_preferred_location_def io_defs)

lemma prefetch_to_device_off:
  "\<not> gh200_uvm_enabled st \<or> \<not> cuda_is_available tc \<Longrightarrow>
   prefetch_to_device st tc t d =
     (Inr False, if gh200_uvm_enabled st then [(Call_is_available, False)] else [])"
  by (auto simp: prefetch_to_device_def io_defs)

lemma for_each_within:
  assumes "\<And>x. x \<in> set xs \<Longrightarrow> \<exists>r tr. body x = (Inr r, tr) \<and> set tr \<subseteq> S"
  shows "\<exists>tr. for_each xs body = (Inr (), tr) \<and> set tr \<subseteq> S"
  using assms
proof (induction xs)
  case Nil
  then show ?case by (simp add: ret_def)
next
  case (Cons x xs)
  from Cons.prems obtain r tr where b: "body x = (Inr r, tr)" "set tr \<subseteq> S"
    by fastforce
  from Cons obtain tr' where f: "for_each xs body = (Inr (), tr')" "set tr' \<subseteq> S"
    by fastforce
  show ?case using b f by (simp add: bind_def)
qed

text \<open>
  C5. When the hints are not enabled or CUDA is not available, \<^verbatim>\<open>prefer_cpu_residency\<close>,
  \<^verbatim>\<open>prefer_gpu_residency\<close> and \<^verbatim>\<open>prefetch_to_device\<close> return \<^verbatim>\<open>False\<close>, and the log of
  what they did holds at most the query \<^verbatim>\<open>torch.cuda.is_available()\<close> (nothing at all when the
  hints are off): no tensor is read and no runtime call is made. \<^verbatim>\<open>optimize_batch_for_gh200\<close>
  returns normally with a log of such queries only, and an empty log when the hints are off.
\<close>

theorem C5_no_work_when_off:
  assumes "\<not> gh200_uvm_enabled st \<or> \<not> cuda_is_available tc"
  shows "prefer_cpu_residency st tc t =
           (Inr False, if gh200_uvm_enabled st then [(Call_is_available, False)] else [])
    \<and> prefer_gpu_residency st tc t =
           (Inr False, if gh200_uvm_enabled st then [(Call_is_available, False)] else [])
    \<and> prefetch_to_device st tc t device =
           (Inr False, if gh200_uvm_enabled st then [(Call_is_available, False)] else [])
    \<and> fst (optimize_batch_for_gh200 st tc batch) = Inr ()
    \<and> set (snd (optimize_batch_for_gh200 st tc batch)) \<subseteq> {(Call_is_available, False)}
    \<and> (gh200_uvm_enabled st \<or> snd (optimize_batch_for_gh200 st tc batch) = [])"
proof -
  let ?S = "{(Call_is_available, False)}"
  let ?off = "(Inr False, if gh200_uvm_enabled st then [(Call_is_available, False)] else [])"
  have c: "prefer_cpu_residency st tc t = ?off" for t
    using assms by (simp add: prefer_cpu_residency_def apply_preferred_location_off)
  have g: "prefer_gpu_residency st tc t = ?off" for t
    using assms by (simp add: prefer_gpu_residency_def apply_preferred_location_off)
  have p: "prefetch_to_device st tc t device = ?off" for t device
    using assms by (rule prefetch_to_device_off)
  have latents: "\<exists>tr. for_each ts (\<lambda>t. prefer_cpu_residency st tc t) = (Inr (), tr) \<and> set tr \<subseteq> ?S"
    for ts
    by (rule for_each_within) (auto simp: c)
  have inner: "\<exists>tr. for_each ts
        (\<lambda>t. bind (prefer_gpu_residency st tc t) (\<lambda>_. prefetch_to_device st tc t None))
          = (Inr (), tr) \<and> set tr \<subseteq> ?S" for ts
    by (rule for_each_within) (auto simp: g p bind_def)
  have outer: "\<exists>tr. for_each ks (\<lambda>key. for_each (iter_tensors (batch_get batch key))
        (\<lambda>t. bind (prefer_gpu_residency st tc t) (\<lambda>_. prefetch_to_device st tc t None)))
          = (Inr (), tr) \<and> set tr \<subseteq> ?S" for ks
    by (rule for_each_within) (use inner in blast)
  obtain tr1 where t1:
    "for_each (iter_tensors (batch_get batch ''latents'')) (\<lambda>t. prefer_cpu_residency st tc t)
       = (Inr (), tr1)" "set tr1 \<subseteq> ?S"
    using latents by blast
  obtain tr2 where t2:
    "for_each [''encoder_hidden_states'', ''text_embeddings'', ''pooled_prompt_embeds'']
       (\<lambda>key. for_each (iter_tensors (batch_get batch key))
          (\<lambda>t. bind (prefer_gpu_residency st tc t) (\<lambda>_. prefetch_to_device st tc t None)))
       = (Inr (), tr2)" "set tr2 \<subseteq> ?S"
    using outer by blast
  have ob: "optimize_batch_for_gh200 st tc batch =
      (Inr (), if gh200_uvm_enabled st then tr1 @ tr2 else [])"
    unfolding optimize_batch_for_gh200_def using t1 t2 by (simp add: bind_def ret_def)
  have o1: "fst (optimize_batch_for_gh200 st tc batch) = Inr ()"
    by (simp add: ob)
  have o2: "set (snd (optimize_batch_for_gh200 st tc batch)) \<subseteq> ?S"
    using t1(2) t2(2) by (auto simp: ob)
  have o3: "gh200_uvm_enabled st \<or> snd (optimize_batch_for_gh200 st tc batch) = []"
    by (simp add: ob)
  show ?thesis using c g p o1 o2 o3 by blast
qed

lemma demo_state_off: "\<not> gh200_uvm_enabled (demo_state None)"
  by (simp add: demo_state_def gh200_uvm_enabled_def environ_get_def py_lower_def py_strip_def)

theorem C5_no_work_when_off_witness:
  "prefer_cpu_residency (demo_state None) (demo_cuda True) demo_tensor = (Inr False, [])
   \<and> prefer_gpu_residency (demo_state None) (demo_cuda True) demo_tensor = (Inr False, [])
   \<and> prefetch_to_device (demo_state None) (demo_cuda True) demo_tensor None = (Inr False, [])
   \<and> optimize_batch_for_gh200 (demo_state None) (demo_cuda True) demo_batch = (Inr (), [])"
proof -
  have off: "\<not> gh200_uvm_enabled (demo_state None) \<or> \<not> cuda_is_available (demo_cuda True)"
    using demo_state_off by simp
  show ?thesis
    using C5_no_work_when_off [OF off, of demo_tensor None demo_batch] demo_state_off
    by (simp add: prod_eq_iff)
qed

subsection \<open>The hint functions return a boolean\<close>

lemma quiet_simps [simp]:
  "quiet []"
  "quiet (tr @ tr') = (quiet tr \<and> quiet tr')"
  "quiet (e # tr) = (\<not> hint_call (fst e) \<and> quiet tr)"
  by (auto simp: quiet_def)

lemma quiet_completed [simp]:
  "quiet tr \<Longrightarrow> completed is_memory_advise tr = 0"
  "quiet tr \<Longrightarrow> completed is_cudaMemAdvise tr = 0"
  "quiet tr \<Longrightarrow> completed is_cudaMemPrefetchAsync tr = 0"
  by (auto simp: completed_def quiet_def list_all_iff hint_call_def filter_empty_conv)

lemma quiet_raised [simp]:
  "quiet tr \<Longrightarrow> \<not> raised is_memory_advise tr"
  "quiet tr \<Longrightarrow> \<not> raised is_cudaMemAdvise tr"
  "quiet tr \<Longrightarrow> \<not> raised is_cudaMemPrefetchAsync tr"
  by (auto simp: raised_def quiet_def list_ex_iff list_all_iff hint_call_def)

lemma completed_simps [simp]:
  "completed kind [] = 0"
  "completed kind (tr @ tr') = completed kind tr + completed kind tr'"
  "completed kind (e # tr) = (if kind (fst e) \<and> \<not> snd e then 1 else 0) + completed kind tr"
  by (simp_all add: completed_def)

lemma raised_simps [simp]:
  "raised kind [] = False"
  "raised kind (tr @ tr') = (raised kind tr \<or> raised kind tr')"
  "raised kind (e # tr) = ((kind (fst e) \<and> snd e) \<or> raised kind tr)"
  by (simp_all add: raised_def)











section \<open>Part II: properties of check_uvm_env\<close>

text \<open>The search \<open>py_in\<close> finds exactly the substrings.\<close>

lemma py_in_iff: "py_in sub s = (\<exists>pre post. s = pre @ sub @ post)"
proof (induction s)
  case Nil
  then show ?case by auto
next
  case (Cons c cs)
  show ?case
  proof
    assume "py_in sub (c # cs)"
    then consider "prefix sub (c # cs)" | "py_in sub cs" by auto
    then show "\<exists>pre post. c # cs = pre @ sub @ post"
    proof cases
      case 1
      then obtain post where "c # cs = sub @ post" by (auto simp: prefix_def)
      then have "c # cs = [] @ sub @ post" by simp
      then show ?thesis by blast
    next
      case 2
      then obtain pre post where "cs = pre @ sub @ post" using Cons.IH by blast
      then have "c # cs = (c # pre) @ sub @ post" by simp
      then show ?thesis by blast
    qed
  next
    assume "\<exists>pre post. c # cs = pre @ sub @ post"
    then obtain pre post where e: "c # cs = pre @ sub @ post" by blast
    show "py_in sub (c # cs)"
    proof (cases pre)
      case Nil
      then have "prefix sub (c # cs)" using e by (simp add: prefix_def)
      then show ?thesis by simp
    next
      case (Cons a pre')
      then have "cs = pre' @ sub @ post" using e by simp
      then have "py_in sub cs" using Cons.IH by blast
      then show ?thesis by simp
    qed
  qed
qed

lemma py_split_nonempty: "py_split sep s \<noteq> []"
  by (induction s) (auto split: list.splits)

lemma py_join_split: "py_join sep (py_split sep s) = s"
proof (induction s)
  case Nil
  then show ?case by simp
next
  case (Cons c cs)
  obtain w ws where sp: "py_split sep cs = w # ws"
    using py_split_nonempty [of sep cs] by (cases "py_split sep cs") auto
  show ?case using Cons sp by (cases ws) auto
qed

lemma py_split_no_sep: "part \<in> set (py_split sep s) \<Longrightarrow> sep \<notin> set part"
  by (induction s arbitrary: part) (auto split: if_splits list.splits)

text \<open>What the two splits of Python do, said without them.\<close>

lemma split_once_at_first:
  "sep \<notin> set k \<Longrightarrow> split_once sep (k @ sep # v) = (k, v)"
  by (simp add: split_once_def takeWhile_tail dropWhile_append)

text \<open>The loop keeps, for each of the two keys, the value of the last part with that key.\<close>

lemma foldl_parts:
  "foldl (check_uvm_env_part py_float) (None, None) parts =
     (map_option (\<lambda>v. case py_float v of Some f \<Rightarrow> Ratio_float f | None \<Rightarrow> Ratio_raw v)
        (map_of (rev (map (\<lambda>part. (py_lower (py_strip (fst (split_once CHR '':'' part))),
                  py_strip (snd (split_once CHR '':'' part))))
            (filter (\<lambda>part. CHR '':'' \<in> set part) parts))) ''uvm_oversubscription_ratio''),
      map_option py_lower
        (map_of (rev (map (\<lambda>part. (py_lower (py_strip (fst (split_once CHR '':'' part))),
                  py_strip (snd (split_once CHR '':'' part))))
            (filter (\<lambda>part. CHR '':'' \<in> set part) parts))) ''uvm_access_pattern''))"
proof (induction parts rule: rev_induct)
  case Nil
  then show ?case by simp
next
  case (snoc p ps)
  have step: "foldl (check_uvm_env_part py_float) (None, None) (ps @ [p]) =
      check_uvm_env_part py_float (foldl (check_uvm_env_part py_float) (None, None) ps) p"
    by simp
  obtain x1 x2 where so: "split_once CHR '':'' p = (x1, x2)"
    by (cases "split_once CHR '':'' p") auto
  define k where "k = py_lower (py_strip x1)"
  show ?case
  proof (cases "CHR '':'' \<in> set p")
    case False
    then show ?thesis unfolding step snoc by (simp add: check_uvm_env_part_def)
  next
    case True
    consider "k = ''uvm_oversubscription_ratio''" | "k = ''uvm_access_pattern''"
      | "k \<noteq> ''uvm_oversubscription_ratio''" "k \<noteq> ''uvm_access_pattern''"
      by blast
    then show ?thesis
    proof cases
      case 1
      then have "k \<noteq> ''uvm_access_pattern''" by simp
      with 1 True show ?thesis
        unfolding step snoc by (simp add: check_uvm_env_part_def so k_def [symmetric] Let_def)
    next
      case 2
      then have "k \<noteq> ''uvm_oversubscription_ratio''" by simp
      with 2 True show ?thesis
        unfolding step snoc by (simp add: check_uvm_env_part_def so k_def [symmetric] Let_def)
    next
      case 3
      with True show ?thesis
        unfolding step snoc
        by (simp add: check_uvm_env_part_def so k_def [symmetric] neq_commute Let_def)
    qed
  qed
qed

text \<open>
  C7. \<^verbatim>\<open>check_uvm_env\<close> reports \<^verbatim>\<open>enabled\<close> exactly when \<^verbatim>\<open>use_uvm:True\<close> is a substring of
  \<^verbatim>\<open>PYTORCH_CUDA_ALLOC_CONF\<close> (the empty string when unset), character for character. Of the
  comma-separated \<^verbatim>\<open>key:value\<close> parts, keys stripped and lowercased and values stripped, it
  takes the last part with key \<^verbatim>\<open>uvm_oversubscription_ratio\<close> and returns its value as the
  float that \<^verbatim>\<open>float\<close> gives, or as the string itself when \<^verbatim>\<open>float\<close> raises
  \<^verbatim>\<open>ValueError\<close>; and it returns the lowercased value of the last part with key
  \<^verbatim>\<open>uvm_access_pattern\<close>. Each is \<^verbatim>\<open>None\<close> when no part has the key.
\<close>

theorem C7_check_uvm_env:
  "enabled (check_uvm_env py_float env)
     = (\<exists>pre post. environ_get env ''PYTORCH_CUDA_ALLOC_CONF'' '''' = pre @ ''use_uvm:True'' @ post)
   \<and> oversubscription_ratio (check_uvm_env py_float env)
     = (case last_value ''uvm_oversubscription_ratio''
               (key_value_parts (environ_get env ''PYTORCH_CUDA_ALLOC_CONF'' '''')) of
          None \<Rightarrow> None
        | Some v \<Rightarrow>
            (case py_float v of
               Some f \<Rightarrow> Some (Ratio_float f)
             | None \<Rightarrow> Some (Ratio_raw v)))
   \<and> access_pattern (check_uvm_env py_float env)
     = (case last_value ''uvm_access_pattern''
               (key_value_parts (environ_get env ''PYTORCH_CUDA_ALLOC_CONF'' '''')) of
          None \<Rightarrow> None
        | Some v \<Rightarrow> Some (py_lower v))
   \<and> (''uvm_oversubscription_ratio''
         \<notin> fst ` set (key_value_parts (environ_get env ''PYTORCH_CUDA_ALLOC_CONF'' ''''))
       \<longrightarrow> oversubscription_ratio (check_uvm_env py_float env) = None)
   \<and> (''uvm_access_pattern''
         \<notin> fst ` set (key_value_parts (environ_get env ''PYTORCH_CUDA_ALLOC_CONF'' ''''))
       \<longrightarrow> access_pattern (check_uvm_env py_float env) = None)"
proof -
  let ?conf = "environ_get env ''PYTORCH_CUDA_ALLOC_CONF'' ''''"
  have e: "foldl (check_uvm_env_part py_float) (None, None) (py_split CHR '','' []) = (None, None)"
    by (simp add: check_uvm_env_part_def)
  have f: "(if ?conf \<noteq> [] then
              foldl (check_uvm_env_part py_float) (None, None) (py_split CHR '','' ?conf)
            else (None, None))
         = foldl (check_uvm_env_part py_float) (None, None) (py_split CHR '','' ?conf)"
    using e by (cases "?conf = []") simp_all
  have absent: "k \<notin> fst ` set kvs \<Longrightarrow> last_value k kvs = None"
    for k and kvs :: "(string \<times> string) list"
    by (simp add: last_value_def map_of_eq_None_iff)
  have main: "enabled (check_uvm_env py_float env)
     = (\<exists>pre post. ?conf = pre @ ''use_uvm:True'' @ post)
   \<and> oversubscription_ratio (check_uvm_env py_float env)
     = map_option (\<lambda>v. case py_float v of Some f \<Rightarrow> Ratio_float f | None \<Rightarrow> Ratio_raw v)
         (last_value ''uvm_oversubscription_ratio'' (key_value_parts ?conf))
   \<and> access_pattern (check_uvm_env py_float env)
     = map_option py_lower (last_value ''uvm_access_pattern'' (key_value_parts ?conf))"
    unfolding check_uvm_env_def Let_def f foldl_parts
    by (simp add: py_in_iff key_value_parts_def last_value_def)
  show ?thesis
    using main absent by (simp split: option.splits)
qed

theorem C7_check_uvm_env_witness:
  "enabled (check_uvm_env demo_float demo_environ)
   \<and> oversubscription_ratio (check_uvm_env demo_float demo_environ) = Some (Ratio_raw ''abc'')
   \<and> access_pattern (check_uvm_env demo_float demo_environ) = Some ''gpu_first''
   \<and> \<not> enabled (check_uvm_env demo_float demo_environ_float)
   \<and> oversubscription_ratio (check_uvm_env demo_float demo_environ_float)
       = Some (Ratio_float ''1.5'')
   \<and> access_pattern (check_uvm_env demo_float demo_environ_float) = Some [CHR 0xE9, CHR ''t'']
   \<and> oversubscription_ratio (check_uvm_env demo_float Map.empty) = None
   \<and> access_pattern (check_uvm_env demo_float Map.empty) = None"
proof -
  let ?conf = "''use_uvm:True, UVM_Oversubscription_Ratio : 2.5 ,uvm_access_pattern:GPU_First,junk,uvm_oversubscription_ratio:abc''"
  let ?conf2 = "''use_uvm:true,uvm_oversubscription_ratio: 1.5 ,uvm_access_pattern:'' @ [CHR 0xC9, CHR ''T'']"
  have conf: "environ_get demo_environ ''PYTORCH_CUDA_ALLOC_CONF'' '''' = ?conf"
    by (simp add: demo_environ_def environ_get_def)
  have conf2: "environ_get demo_environ_float ''PYTORCH_CUDA_ALLOC_CONF'' '''' = ?conf2"
    by (simp add: demo_environ_float_def environ_get_def)
  have unset: "environ_get Map.empty ''PYTORCH_CUDA_ALLOC_CONF'' '''' = ''''"
    by (simp add: environ_get_def)
  have kv: "key_value_parts ?conf =
      [(''use_uvm'', ''True''), (''uvm_oversubscription_ratio'', ''2.5''),
       (''uvm_access_pattern'', ''GPU_First''), (''uvm_oversubscription_ratio'', ''abc'')]"
    by code_simp
  have kv2: "key_value_parts ?conf2 =
      [(''use_uvm'', ''true''), (''uvm_oversubscription_ratio'', ''1.5''),
       (''uvm_access_pattern'', [CHR 0xC9, CHR ''T''])]"
    by code_simp
  have kv0: "key_value_parts '''' = []"
    by code_simp
  have sub: "\<exists>pre post. ?conf = pre @ ''use_uvm:True'' @ post"
  proof -
    have "py_in ''use_uvm:True'' ?conf" by code_simp
    then show ?thesis by (simp only: py_in_iff)
  qed
  have nosub: "\<not> (\<exists>pre post. ?conf2 = pre @ ''use_uvm:True'' @ post)"
  proof -
    have "\<not> py_in ''use_uvm:True'' ?conf2" by code_simp
    then show ?thesis unfolding py_in_iff .
  qed
  have fl: "demo_float ''abc'' = None" "demo_float ''1.5'' = Some ''1.5''"
    by code_simp+
  have low: "py_lower ''GPU_First'' = ''gpu_first''"
    "py_lower [CHR 0xC9, CHR ''T''] = [CHR 0xE9, CHR ''t'']"
    by code_simp+
  have r1: "enabled (check_uvm_env demo_float demo_environ)
   \<and> oversubscription_ratio (check_uvm_env demo_float demo_environ) = Some (Ratio_raw ''abc'')
   \<and> access_pattern (check_uvm_env demo_float demo_environ) = Some ''gpu_first''"
    using C7_check_uvm_env [of demo_float demo_environ] sub
    unfolding conf kv by (simp add: last_value_def fl low)
  have r2: "\<not> enabled (check_uvm_env demo_float demo_environ_float)
   \<and> oversubscription_ratio (check_uvm_env demo_float demo_environ_float)
       = Some (Ratio_float ''1.5'')
   \<and> access_pattern (check_uvm_env demo_float demo_environ_float) = Some [CHR 0xE9, CHR ''t'']"
    using C7_check_uvm_env [of demo_float demo_environ_float] nosub
    unfolding conf2 kv2 by (simp add: last_value_def fl low)
  have r3: "oversubscription_ratio (check_uvm_env demo_float Map.empty) = None
   \<and> access_pattern (check_uvm_env demo_float Map.empty) = None"
    using C7_check_uvm_env [of demo_float Map.empty]
    unfolding unset kv0 by (simp add: last_value_def)
  show ?thesis using r1 r2 r3 by simp
qed

section \<open>Part II: properties of the in-memory backend\<close>

subsection \<open>What is written is read back\<close>

text \<open>A codec that \<^verbatim>\<open>_resolve_compression\<close> hands out gives back what it compressed.\<close>

lemma resolve_compression_roundtrip:
  assumes "codecs_roundtrip libs"
    and "resolve_compression libs name = Inr (c, d, n)"
  shows "(c = None \<and> d = None) \<or> (\<exists>cf df. c = Some cf \<and> d = Some df \<and> (\<forall>x. df (cf x) = Inr x))"
proof (cases name)
  case None
  then show ?thesis using assms(2) by (simp add: resolve_compression_def)
next
  case (Some s)
  define norm where "norm = py_lower (py_strip s)"
  show ?thesis
  proof (cases "s = []")
    case True
    then show ?thesis using assms(2) Some by (simp add: resolve_compression_def)
  next
    case False
    have r: "resolve_compression libs name =
        (if norm = ''zlib'' then
           Inr (Some (\<lambda>data. zlib_compress libs data 1), Some (zlib_decompress libs), ''zlib'')
         else if norm = ''lz4'' then
           (case lz4_frame libs of None \<Rightarrow> Inl RuntimeError
            | Some (c, d) \<Rightarrow> Inr (Some c, Some d, ''lz4''))
         else if norm = ''snappy'' then
           (case snappy libs of None \<Rightarrow> Inl RuntimeError
            | Some (c, d) \<Rightarrow> Inr (Some c, Some d, ''snappy''))
         else Inl ValueError)"
      using False Some by (simp add: resolve_compression_def norm_def Let_def)
    consider "norm = ''zlib''" | "norm = ''lz4''" | "norm = ''snappy''"
      | "norm \<noteq> ''zlib''" "norm \<noteq> ''lz4''" "norm \<noteq> ''snappy''"
      by blast
    then show ?thesis
    proof cases
      case 1
      then show ?thesis using assms r by (auto simp: codecs_roundtrip_def)
    next
      case 2
      then show ?thesis using assms r by (auto simp: codecs_roundtrip_def split: option.splits)
    next
      case 3
      then show ?thesis using assms r by (auto simp: codecs_roundtrip_def split: option.splits)
    next
      case 4
      then show ?thesis using assms(2) r by simp
    qed
  qed
qed

lemma decompressed_compressed:
  assumes "codecs_roundtrip libs"
    and "resolve_compression libs name = Inr (compress_fn b, decompress_fn b, compression_name b)"
  shows "decompressed b (compressed b payload) = Inr payload"
  using resolve_compression_roundtrip [OF assms]
  by (auto simp: decompressed_def compressed_def)

text \<open>
  C1. For every identifier and every bytes payload, \<^verbatim>\<open>write(identifier, payload)\<close> followed by
  \<^verbatim>\<open>read(identifier)\<close> returns the payload (as bytes, or wrapped in a \<^verbatim>\<open>BytesIO\<close> when asked
  so), whatever compression the backend was configured with: its two codec fields are
  what \<^verbatim>\<open>_resolve_compression\<close> returned for some setting, and the libraries give back what
  they compressed.
\<close>

theorem C1_write_then_read:
  assumes "codecs_roundtrip libs"
    and "resolve_compression libs name = Inr (compress_fn b, decompress_fn b, compression_name b)"
  shows "fst (read (snd (backend_write torch_save b identifier (Bytes payload))) identifier as_byte_io)
         = Inr (if as_byte_io then BytesIO payload else Bytes payload)"
proof -
  let ?b = "b\<lparr>storage := AList.update identifier (compressed b payload) (storage b)\<rparr>"
  have w: "snd (backend_write torch_save b identifier (Bytes payload)) = ?b"
    by (simp add: backend_write_def)
  have d: "decompressed ?b (compressed b payload) = Inr payload"
    using decompressed_compressed [OF assms, of payload] by (simp add: decompressed_def)
  show ?thesis
    unfolding w by (simp add: read_def update_conv' d)
qed


lemma demo_resolve_zlib:
  "resolve_compression demo_codecs (Some '' ZLib '')
     = Inr (Some (\<lambda>data. zlib_compress demo_codecs data 1), Some (zlib_decompress demo_codecs), ''zlib'')"
proof -
  have n: "py_lower (py_strip '' ZLib '') = ''zlib''" by code_simp
  show ?thesis by (simp add: resolve_compression_def n)
qed

lemma demo_roundtrip: "codecs_roundtrip demo_codecs"
  by (simp add: codecs_roundtrip_def demo_codecs_def)

theorem C1_write_then_read_witness:
  "fst (read (snd (backend_write demo_torch_save (demo_backend (Some '' ZLib '')) ''c.png'' (Bytes [7, 8])))
          ''c.png'' False) = Inr (Bytes [7, 8])"
proof -
  have r: "resolve_compression demo_codecs (Some '' ZLib '')
      = Inr (compress_fn (demo_backend (Some '' ZLib '')), decompress_fn (demo_backend (Some '' ZLib '')),
             compression_name (demo_backend (Some '' ZLib '')))"
    by (simp add: demo_backend_def new_backend_def demo_resolve_zlib)
  show ?thesis
    using C1_write_then_read [OF demo_roundtrip r, of demo_torch_save "''c.png''" "[7, 8]" False] by simp
qed


subsection \<open>Nothing is evicted\<close>

text \<open>
  C3. \<^verbatim>\<open>read\<close>, \<^verbatim>\<open>exists\<close>, \<^verbatim>\<open>open_file\<close>, \<^verbatim>\<open>list_files\<close>, \<^verbatim>\<open>read_image\<close>, \<^verbatim>\<open>torch_load\<close>
  and \<^verbatim>\<open>get_abs_path\<close> leave the backend, and so its storage, as it was, whatever they
  return or raise. \<^verbatim>\<open>write(i, data)\<close> and \<^verbatim>\<open>delete(i)\<close> leave the entry of every identifier
  other than \<open>i\<close> as it was.
\<close>

theorem C3_no_eviction:
  "snd (read b i io) = b
   \<and> snd (exists b i) = b
   \<and> snd (open_file b i mode) = b
   \<and> snd (list_files b exts) = b
   \<and> snd (read_image image_open b path) = b
   \<and> snd (torch_load torch_load_bytes b path) = b
   \<and> snd (get_abs_path b sample) = b
   \<and> (k \<noteq> i \<longrightarrow> map_of (storage (snd (backend_write torch_save b i data))) k = map_of (storage b) k)
   \<and> (k \<noteq> i \<longrightarrow> map_of (storage (snd (delete b i))) k = map_of (storage b) k)"
proof -
  have r: "snd (read b i io) = b" for i io
    by (simp add: read_def split: option.splits sum.splits)
  have 1: "snd (exists b i) = b" by (simp add: exists_def)
  have 2: "snd (open_file b i mode) = b"
    by (simp add: open_file_def split: option.splits sum.splits)
  have 3: "snd (list_files b exts) = b" by (simp add: list_files_def Let_def)
  have rc: "(\<exists>e. read b k False = (Inl e, b)) \<or> (\<exists>p. read b k False = (Inr (Bytes p), b))" for k
    by (simp add: read_def split: option.splits sum.splits)
  have 4: "snd (read_image image_open b path) = b"
    using rc [of "relative_key b path"] by (auto simp: read_image_def)
  have 5: "snd (torch_load torch_load_bytes b path) = b"
    using rc [of "relative_key b path"] by (auto simp: torch_load_def)
  have 6: "snd (get_abs_path b sample) = b"
    by (simp add: get_abs_path_def split: option.splits)
  have 7: "k \<noteq> i \<longrightarrow> map_of (storage (snd (backend_write torch_save b i data))) k = map_of (storage b) k"
    by (simp add: backend_write_def update_conv' split: sum.splits py_data.splits)
  have 8: "k \<noteq> i \<longrightarrow> map_of (storage (snd (delete b i))) k = map_of (storage b) k"
    by (simp add: delete_def delete_conv')
  show ?thesis using r 1 2 3 4 5 6 7 8 by blast
qed

theorem C3_no_eviction_witness:
  "map_of (storage (snd (backend_write demo_torch_save (demo_backend None) ''c.png'' (Bytes [9]))))
      ''a.png'' = Some [1, 2, 3]
   \<and> map_of (storage (snd (delete (demo_backend None) ''sub/b.png''))) ''a.png'' = Some [1, 2, 3]"
proof -
  have ne: "''a.png'' \<noteq> ''c.png''" "''a.png'' \<noteq> ''sub/b.png''"
    by simp_all
  have a: "map_of (storage (demo_backend None)) ''a.png'' = Some [1, 2, 3]"
    by (simp add: demo_backend_def)
  show ?thesis
    using C3_no_eviction [where b = "demo_backend None" and k = "''a.png''" and i = "''c.png''"
        and torch_save = demo_torch_save and data = "Bytes [9]" and io = False and mode = "''r''"
        and exts = "[]" and image_open = demo_decode and torch_load_bytes = demo_decode
        and path = "''a.png''" and sample = None]
      C3_no_eviction [where b = "demo_backend None" and k = "''a.png''" and i = "''sub/b.png''"
        and torch_save = demo_torch_save and data = "Bytes [9]" and io = False and mode = "''r''"
        and exts = "[]" and image_open = demo_decode and torch_load_bytes = demo_decode
        and path = "''a.png''" and sample = None]
      ne a
    by simp
qed

subsection \<open>Missing identifiers and unsupported data\<close>

text \<open>
  C8. For an identifier that is not staged, \<^verbatim>\<open>read\<close> raises \<^verbatim>\<open>KeyError\<close> and \<^verbatim>\<open>delete\<close>
  returns normally and leaves the backend as it was; for a path whose relative key is not
  staged, \<^verbatim>\<open>read_image\<close> raises \<^verbatim>\<open>FileNotFoundError\<close> and \<^verbatim>\<open>torch_load\<close> raises
  \<^verbatim>\<open>KeyError\<close>. None of them changes the backend.
\<close>

theorem C8_missing_identifier:
  assumes "identifier \<notin> fst ` set (storage b)"
    and "relative_key b filepath \<notin> fst ` set (storage b)"
  shows "read b identifier as_byte_io = (Inl KeyError, b)
   \<and> read_image image_open b filepath = (Inl FileNotFoundError, b)
   \<and> torch_load torch_load_bytes b filepath = (Inl KeyError, b)
   \<and> delete b identifier = (Inr (), b)"
proof -
  have r: "k \<notin> fst ` set (storage b) \<Longrightarrow> read b k io = (Inl KeyError, b)" for k io
  proof -
    assume "k \<notin> fst ` set (storage b)"
    then have "map_of (storage b) k = None" by (simp add: map_of_eq_None_iff)
    then show ?thesis by (simp add: read_def)
  qed
  have d: "AList.delete identifier (storage b) = storage b"
    using assms(1) by (simp add: delete_id)
  show ?thesis
    using r [OF assms(1)] r [OF assms(2)]
    by (simp add: read_image_def torch_load_def delete_def d)
qed

theorem C8_missing_identifier_witness:
  "read (demo_backend None) ''zz.png'' False = (Inl KeyError, demo_backend None)
   \<and> read_image demo_decode (demo_backend None) ''/data/zz.png''
       = (Inl FileNotFoundError, demo_backend None)
   \<and> torch_load demo_decode (demo_backend None) ''/data/zz.png'' = (Inl KeyError, demo_backend None)
   \<and> delete (demo_backend None) ''zz.png'' = (Inr (), demo_backend None)"
proof -
  have keys: "fst ` set (storage (demo_backend None)) = {''a.png'', ''sub/b.png''}"
    by (auto simp: demo_backend_def)
  have rel: "relative_key (demo_backend None) ''/data/zz.png'' = ''zz.png''"
    by code_simp
  have 1: "''zz.png'' \<notin> fst ` set (storage (demo_backend None))"
    unfolding keys by simp
  have 2: "relative_key (demo_backend None) ''/data/zz.png'' \<notin> fst ` set (storage (demo_backend None))"
    unfolding keys rel by simp
  show ?thesis
    using C8_missing_identifier [OF 1 2, of False demo_decode demo_decode] by simp
qed

lemma write_payload_cases:
  "(case data of BytesIO v \<Rightarrow> Inr v | Bytes v \<Rightarrow> Inr v | TorchTensor t \<Rightarrow> Inr (torch_save t)
     | _ \<Rightarrow> Inl TypeError) = (Inl TypeError :: py_exn + bytes)"
  if "\<forall>v. data \<noteq> BytesIO v" and "\<forall>v. data \<noteq> Bytes v" and "\<forall>t. data \<noteq> TorchTensor t"
proof (cases data)
  case (BytesIO x)
  then show ?thesis using that(1) by blast
next
  case (Bytes x)
  then show ?thesis using that(2) by blast
next
  case (TorchTensor x)
  then show ?thesis using that(3) by blast
qed simp_all

text \<open>
  C9. \<^verbatim>\<open>write\<close> raises \<^verbatim>\<open>TypeError\<close> for every data argument that is not a \<^verbatim>\<open>BytesIO\<close>, a
  \<^verbatim>\<open>bytes\<close> or a tensor, and the backend, and so the staged storage, is then as it was.
\<close>

theorem C9_write_type_error:
  assumes "\<forall>v. data \<noteq> BytesIO v" and "\<forall>v. data \<noteq> Bytes v" and "\<forall>t. data \<noteq> TorchTensor t"
  shows "backend_write torch_save b identifier data = (Inl TypeError, b)"
  unfolding backend_write_def write_payload_cases [OF assms] by simp


theorem C9_write_type_error_witness:
  "backend_write demo_torch_save (demo_backend None) ''a.png'' (Str ''text'')
     = (Inl TypeError, demo_backend None)
   \<and> backend_write demo_torch_save (demo_backend None) ''a.png'' (ByteArray [1, 2])
     = (Inl TypeError, demo_backend None)"
  using C9_write_type_error [of "Str ''text''" demo_torch_save "demo_backend None" "''a.png''"]
    C9_write_type_error [of "ByteArray [1, 2]" demo_torch_save "demo_backend None" "''a.png''"]
  by simp

subsection \<open>Staging\<close>













lemma stage_other:
  assumes "stage futures b = (Inr u, b')"
    and "\<forall>v'. Inr (k, v') \<notin> set futures"
  shows "map_of (storage b') k = map_of (storage b) k"
  using assms
  by (induction futures b rule: stage.induct) (auto simp: update_conv')


lemma codec_storage_update [simp]:
  "compressed (b\<lparr>storage := s\<rparr>) = compressed b"
  "decompressed (b\<lparr>storage := s\<rparr>) = decompressed b"
  by (simp_all add: compressed_def decompressed_def fun_eq_iff)

lemma staging_storage_update [simp]:
  "gather_files sys (b\<lparr>storage := s\<rparr>) = gather_files sys b"
  "load_single_file sys (b\<lparr>storage := s\<rparr>) = load_single_file sys b"
  by (simp_all add: gather_files_def load_single_file_def fun_eq_iff split: sum.splits)




text \<open>Staging the example directory, without compression and with the toy \<^verbatim>\<open>lz4\<close>.\<close>

lemma demo_construct:
  assumes "gb = None \<or> gb = Some (1 / 2 ^ 28)"
  shows "GH200InMemoryBackend demo_system demo_codecs [''png''] ''ds'' ''/data'' None None gb 4
         = Inr (demo_staged gb)"
proof -
  let ?b0 = "new_backend [''png''] ''ds'' ''/data'' None (None, None, ''none'') gb 4"
  have rc: "resolve_compression demo_codecs None = Inr (None, None, ''none'')"
    by (simp add: resolve_compression_def)
  have g: "gather_files demo_system ?b0 = [Path ''/data/a.png'', Path ''/data/sub/b.PNG'']"
    by code_simp
  have t: "total_size demo_system [Path ''/data/a.png'', Path ''/data/sub/b.PNG''] = Inr 4"
    by code_simp
  have l1: "load_single_file demo_system ?b0 (Path ''/data/a.png'') = Inr (''a.png'', [1, 2, 3])"
    by code_simp
  have l2: "load_single_file demo_system ?b0 (Path ''/data/sub/b.PNG'') = Inr (''sub/b.PNG'', [4])"
    by code_simp
  have ex: "path_exists demo_system (instance_data_dir ?b0)"
    by (simp add: demo_system_def new_backend_def)
  have "py_int (1 / 2 ^ 28 * 1024 ^ 3) = 4"
    by (simp add: py_int_def)
  then have lim: "memory_limit_bytes ?b0 = None \<or> memory_limit_bytes ?b0 = Some 4"
    using assms by (auto simp: new_backend_def)
  have ac: "as_completed demo_system = rev"
    by (simp add: demo_system_def)
  have s0: "storage ?b0 = []"
    by (simp add: new_backend_def)
  have ld: "load_dataset demo_system ?b0 = (Inr (), demo_staged gb)"
    unfolding load_dataset_def Let_def g t
    using lim by (auto simp: l1 l2 ac s0 demo_staged_def)
  show ?thesis
    using ex by (simp add: GH200InMemoryBackend_def rc Let_def ld)
qed





subsection \<open>The memory limit\<close>

text \<open>
  C4, as the claim states it, fails: the claim has the contents never exceed the configured
  limit. With a limit of four bytes the constructor stages the two matching files of
  \<^verbatim>\<open>/data\<close>, four bytes; a \<^verbatim>\<open>write\<close> of three more bytes succeeds, and the backend holds
  seven.
\<close>

theorem C4_counterexample:
  "GH200InMemoryBackend demo_system demo_codecs [''png''] ''ds'' ''/data'' None None (Some (1 / 2 ^ 28)) 4
     = Inr (demo_staged (Some (1 / 2 ^ 28)))
   \<and> memory_limit_bytes (demo_staged (Some (1 / 2 ^ 28))) = Some 4
   \<and> stored_bytes (snd (backend_write demo_torch_save (demo_staged (Some (1 / 2 ^ 28)))
        ''extra.png'' (Bytes [7, 7, 7]))) = 7"
proof -
  have "py_int (1 / 2 ^ 28 * 1024 ^ 3) = 4"
    by (simp add: py_int_def)
  then show ?thesis
    using demo_construct [of "Some (1 / 2 ^ 28)"]
    by (simp add: demo_staged_def new_backend_def backend_write_def stored_bytes_def compressed_def)
qed

lemma total_size_nil: "total_size sys files = Inr n_bytes \<Longrightarrow> files = [] \<Longrightarrow> n_bytes = 0"
  by simp

text \<open>
  C4, amended. Let \<^verbatim>\<open>memory_limit_gb\<close> be set and convert to a positive number of bytes, let
  the compression setting resolve and the directory exist, and let the sizes of the
  discovered files be readable with sum \<open>n_bytes\<close>. If \<open>n_bytes\<close> exceeds the limit, the
  constructor raises \<^verbatim>\<open>MemoryError\<close>: \<^verbatim>\<open>_load_dataset\<close> raises it and leaves the object as the
  assignments of \<^verbatim>\<open>__init__\<close> made it, its storage empty. If the constructor returns a backend,
  \<open>n_bytes\<close> is at most the limit. The limit is looked at once, in the constructor, and
  against the raw sizes; nothing is said of what the backend holds later.
\<close>

theorem C4_memory_limit:
  assumes "resolve_compression libs compression = Inr codec"
    and "path_exists sys (Path dir)"
    and "b0 = new_backend default_extensions ident dir exts codec (Some gb) workers"
    and "0 < py_int (gb * 1024 ^ 3)"
    and "total_size sys (gather_files sys b0) = Inr n_bytes"
  shows "(py_int (gb * 1024 ^ 3) < int n_bytes \<longrightarrow>
            GH200InMemoryBackend sys libs default_extensions ident dir exts compression (Some gb) workers
              = Inl MemoryError
          \<and> load_dataset sys b0 = (Inl MemoryError, b0)
          \<and> storage b0 = [])
       \<and> (\<forall>b. GH200InMemoryBackend sys libs default_extensions ident dir exts compression (Some gb) workers
              = Inr b \<longrightarrow> int n_bytes \<le> py_int (gb * 1024 ^ 3))"
proof -
  let ?limit = "py_int (gb * 1024 ^ 3)"
  have lim: "memory_limit_bytes b0 = Some ?limit"
    by (simp add: assms(3) new_backend_def)
  have dir: "instance_data_dir b0 = Path dir"
    by (simp add: assms(3) new_backend_def)
  have con: "GH200InMemoryBackend sys libs default_extensions ident dir exts compression (Some gb) workers
      = (case load_dataset sys b0 of (Inl e, b') \<Rightarrow> Inl e | (Inr u, b') \<Rightarrow> Inr b')"
    using assms(1,2) dir by (simp add: GH200InMemoryBackend_def Let_def assms(3) [symmetric])
  have over: "load_dataset sys b0 = (Inl MemoryError, b0)" if "?limit < int n_bytes"
  proof -
    have "gather_files sys b0 \<noteq> []"
      using total_size_nil [OF assms(5)] that assms(4) by auto
    then show ?thesis
      using that assms(4,5) lim by (simp add: load_dataset_def Let_def)
  qed
  have first: "?limit < int n_bytes \<longrightarrow>
      GH200InMemoryBackend sys libs default_extensions ident dir exts compression (Some gb) workers
        = Inl MemoryError
      \<and> load_dataset sys b0 = (Inl MemoryError, b0) \<and> storage b0 = []"
    using over con by (simp add: assms(3) new_backend_def)
  have second: "int n_bytes \<le> ?limit"
    if "GH200InMemoryBackend sys libs default_extensions ident dir exts compression (Some gb) workers = Inr b"
    for b
  proof (rule ccontr)
    assume "\<not> int n_bytes \<le> ?limit"
    then have "load_dataset sys b0 = (Inl MemoryError, b0)" using over by simp
    then show False using that con by simp
  qed
  show ?thesis using first second by blast
qed

theorem C4_memory_limit_witness:
  "GH200InMemoryBackend demo_system demo_codecs [''png''] ''ds'' ''/data'' None None (Some (3 / 2 ^ 30)) 4
     = Inl MemoryError
   \<and> load_dataset demo_system
        (new_backend [''png''] ''ds'' ''/data'' None (None, None, ''none'') (Some (3 / 2 ^ 30)) 4)
     = (Inl MemoryError,
        new_backend [''png''] ''ds'' ''/data'' None (None, None, ''none'') (Some (3 / 2 ^ 30)) 4)
   \<and> storage (new_backend [''png''] ''ds'' ''/data'' None (None, None, ''none'') (Some (3 / 2 ^ 30)) 4) = []"
proof -
  let ?b0 = "new_backend [''png''] ''ds'' ''/data'' None (None, None, ''none'') (Some (3 / 2 ^ 30)) 4"
  have rc: "resolve_compression demo_codecs None = Inr (None, None, ''none'')"
    by (simp add: resolve_compression_def)
  have ex: "path_exists demo_system (Path ''/data'')"
    by (simp add: demo_system_def)
  have pos: "0 < py_int (3 / 2 ^ 30 * 1024 ^ 3)"
    by (simp add: py_int_def)
  have t: "total_size demo_system (gather_files demo_system ?b0) = Inr 4"
    by code_simp
  show ?thesis
    using C4_memory_limit [OF rc ex refl pos t] by (simp add: py_int_def)
qed

end
